theory Spec2Isabelle
  imports Complex_Main
begin

section \<open>The browser driver and the server state\<close>

text \<open>
  The server of \<^verbatim>\<open>src/index.ts\<close> (class \<^verbatim>\<open>ProtonDocsServer\<close>) drives a browser through
  Puppeteer. The browser is outside the program, so it is a parameter of the model: a
  \<open>driver\<close> answers every call from the history of the calls made so far. Every call the
  server issues is appended to a trace kept in the server state; the trace is the only
  addition to the two fields \<^verbatim>\<open>browser\<close> and \<^verbatim>\<open>page\<close> of the class.
\<close>

datatype frame = Frame (frame_name: string) (frame_url: string)

text \<open>An element handle remembers the selector (and frame) that produced it.\<close>

datatype handle = PageElem string | FrameElem frame string

datatype call =
    Launch
  | NewPage
  | SetViewport nat nat
  | Goto string
  | WaitForSelector string "nat option"
  | WaitForTimeout nat
  | PageQuery string
  | PageClick string
  | PageType string string
  | KeyDown string
  | KeyUp string
  | KeyPress string
  | KeyType string
  | Frames
  | Url
  | Evaluate
  | FrameQuery frame string
  | FrameClick frame string
  | FrameType frame string string
  | ElemClick handle nat
  | ElemType handle string
  | Close

datatype error_code = InternalError | InvalidRequest | MethodNotFound

datatype error =
    McpError error_code string
  | ZodError
  | DriverError string
  | TypeError

text \<open>The parts of the DOM that the \<^verbatim>\<open>page.evaluate\<close> callbacks read.\<close>

record row =
  first_cell :: "string option"
  second_cell :: "string option"
  third_cell :: "string option"
  fourth_cell :: "string option"
  data_url :: "string option"

record element =
  textContent :: string
  innerHTML :: string

datatype document = Document (main_editor: "element option")

datatype iframe = Iframe (contentDocument: "document option")

record version_item =
  version_date :: "string option"
  version_author :: "string option"

record driver =
  raises :: "call list \<Rightarrow> call \<Rightarrow> string option"
  found :: "call list \<Rightarrow> handle \<Rightarrow> bool"
  frames :: "call list \<Rightarrow> frame list"
  url :: "call list \<Rightarrow> string"
  table_rows :: "call list \<Rightarrow> row list"
  editor_iframe :: "call list \<Rightarrow> iframe option"
  version_items :: "call list \<Rightarrow> version_item list"
  render :: "error \<Rightarrow> string"
  trim :: "string \<Rightarrow> string"
  number_text :: "rat \<Rightarrow> string"
  is_email :: "string \<Rightarrow> bool"
  is_url :: "string \<Rightarrow> bool"

datatype browser = Browser nat

datatype page = Page nat

record server =
  browser :: "browser option"
  page :: "page option"
  trace :: "call list"

definition initial :: server where
  "initial = \<lparr>browser = None, page = None, trace = []\<rparr>"

section \<open>Asynchronous code as state passing with errors\<close>

type_synonym 'a action = "server \<Rightarrow> (error + 'a) \<times> server"

definition ok :: "'a \<Rightarrow> 'a action" where
  "ok x = (\<lambda>s. (Inr x, s))"

definition throw :: "error \<Rightarrow> 'a action" where
  "throw e = (\<lambda>s. (Inl e, s))"

definition await :: "'a action \<Rightarrow> ('a \<Rightarrow> 'b action) \<Rightarrow> 'b action" where
  "await m k = (\<lambda>s. case m s of (Inl e, s') \<Rightarrow> (Inl e, s') | (Inr x, s') \<Rightarrow> k x s')"

definition seq :: "unit action \<Rightarrow> 'a action \<Rightarrow> 'a action" where
  "seq m n = await m (\<lambda>_. n)"

definition ignore :: "'a action \<Rightarrow> unit action" where
  "ignore m = await m (\<lambda>_. ok ())"

fun steps :: "unit action list \<Rightarrow> unit action" where
  "steps [] = ok ()"
| "steps (m # ms) = seq m (steps ms)"

definition try_catch :: "'a action \<Rightarrow> (error \<Rightarrow> 'a action) \<Rightarrow> 'a action" where
  "try_catch m h = (\<lambda>s. case m s of (Inl e, s') \<Rightarrow> h e s' | (Inr x, s') \<Rightarrow> (Inr x, s'))"

definition parse :: "error + 'a \<Rightarrow> 'a action" where
  "parse r = (case r of Inl e \<Rightarrow> throw e | Inr x \<Rightarrow> ok x)"

subsection \<open>Driver calls\<close>

definition perform :: "driver \<Rightarrow> call \<Rightarrow> unit action" where
  "perform d c = (\<lambda>s.
     let s' = s\<lparr>trace := trace s @ [c]\<rparr>
     in case raises d (trace s) c of
          Some m \<Rightarrow> (Inl (DriverError m), s')
        | None \<Rightarrow> (Inr (), s'))"

definition ask :: "driver \<Rightarrow> call \<Rightarrow> (call list \<Rightarrow> 'a) \<Rightarrow> 'a action" where
  "ask d c answer = (\<lambda>s. case perform d c s of
       (Inl e, s') \<Rightarrow> (Inl e, s')
     | (Inr _, s') \<Rightarrow> (Inr (answer (trace s)), s'))"

text \<open>\<^verbatim>\<open>this.page!.m(...)\<close>: the dereference of a null page is a TypeError.\<close>

definition on_page :: "server \<Rightarrow> bool" where
  "on_page s = (page s \<noteq> None)"

definition page_call :: "driver \<Rightarrow> call \<Rightarrow> unit action" where
  "page_call d c = (\<lambda>s. if on_page s then perform d c s else (Inl TypeError, s))"

definition page_ask :: "driver \<Rightarrow> call \<Rightarrow> (call list \<Rightarrow> 'a) \<Rightarrow> 'a action" where
  "page_ask d c answer = (\<lambda>s. if on_page s then ask d c answer s else (Inl TypeError, s))"

definition goto :: "driver \<Rightarrow> string \<Rightarrow> unit action" where
  "goto d u = page_call d (Goto u)"

definition waitForSelector :: "driver \<Rightarrow> string \<Rightarrow> nat option \<Rightarrow> handle action" where
  "waitForSelector d sel t = page_ask d (WaitForSelector sel t) (\<lambda>_. PageElem sel)"

definition waitForTimeout :: "driver \<Rightarrow> nat \<Rightarrow> unit action" where
  "waitForTimeout d ms = page_call d (WaitForTimeout ms)"

definition page_query :: "driver \<Rightarrow> string \<Rightarrow> handle option action" where
  "page_query d sel = page_ask d (PageQuery sel)
     (\<lambda>tr. if found d tr (PageElem sel) then Some (PageElem sel) else None)"

definition page_click :: "driver \<Rightarrow> string \<Rightarrow> unit action" where
  "page_click d sel = page_call d (PageClick sel)"

definition page_type :: "driver \<Rightarrow> string \<Rightarrow> string \<Rightarrow> unit action" where
  "page_type d sel txt = page_call d (PageType sel txt)"

definition keyboard_down :: "driver \<Rightarrow> string \<Rightarrow> unit action" where
  "keyboard_down d k = page_call d (KeyDown k)"

definition keyboard_up :: "driver \<Rightarrow> string \<Rightarrow> unit action" where
  "keyboard_up d k = page_call d (KeyUp k)"

definition keyboard_press :: "driver \<Rightarrow> string \<Rightarrow> unit action" where
  "keyboard_press d k = page_call d (KeyPress k)"

definition keyboard_type :: "driver \<Rightarrow> string \<Rightarrow> unit action" where
  "keyboard_type d txt = page_call d (KeyType txt)"

definition page_frames :: "driver \<Rightarrow> frame list action" where
  "page_frames d = page_ask d Frames (frames d)"

definition page_url :: "driver \<Rightarrow> string action" where
  "page_url d = page_ask d Url (url d)"

definition frame_query :: "driver \<Rightarrow> frame \<Rightarrow> string \<Rightarrow> handle option action" where
  "frame_query d f sel = ask d (FrameQuery f sel)
     (\<lambda>tr. if found d tr (FrameElem f sel) then Some (FrameElem f sel) else None)"

definition frame_click :: "driver \<Rightarrow> frame \<Rightarrow> string \<Rightarrow> unit action" where
  "frame_click d f sel = perform d (FrameClick f sel)"

definition frame_type :: "driver \<Rightarrow> frame \<Rightarrow> string \<Rightarrow> string \<Rightarrow> unit action" where
  "frame_type d f sel txt = perform d (FrameType f sel txt)"

definition elem_click :: "driver \<Rightarrow> handle \<Rightarrow> nat \<Rightarrow> unit action" where
  "elem_click d h n = perform d (ElemClick h n)"

definition elem_type :: "driver \<Rightarrow> handle \<Rightarrow> string \<Rightarrow> unit action" where
  "elem_type d h txt = perform d (ElemType h txt)"

subsection \<open>Session acquisition (\<^verbatim>\<open>ensureBrowser\<close>, lines 112-125)\<close>

definition ensureBrowser :: "driver \<Rightarrow> unit action" where
  "ensureBrowser d =
     seq (\<lambda>s. if browser s = None
              then await (ask d Launch (\<lambda>tr. Browser (length tr)))
                     (\<lambda>b s'. (Inr (), s'\<lparr>browser := Some b\<rparr>)) s
              else (Inr (), s))
         (\<lambda>s. if page s = None
              then await (ask d NewPage (\<lambda>tr. Page (length tr)))
                     (\<lambda>p s'. page_call d (SetViewport 1280 800) (s'\<lparr>page := Some p\<rparr>)) s
              else (Inr (), s))"

text \<open>\<^verbatim>\<open>stop\<close> (lines 1256-1260).\<close>

definition stop :: "driver \<Rightarrow> unit action" where
  "stop d = (\<lambda>s. if browser s \<noteq> None then perform d Close s else (Inr (), s))"

section \<open>Tool arguments and their schemas (lines 12-89)\<close>

text \<open>
  The arguments of a tool call arrive as a JSON value (\<^verbatim>\<open>args: unknown\<close>); a field
  that is not there reads as \<open>JUndefined\<close>. Numbers are rationals: every finite double is
  one, and the program only compares them.
\<close>

datatype json =
    JUndefined
  | JNull
  | JBool bool
  | JNum rat
  | JStr string
  | JArr "json list"
  | JObj "(string \<times> json) list"

definition field :: "(string \<times> json) list \<Rightarrow> string \<Rightarrow> json" where
  "field kv k = (case map_of kv k of None \<Rightarrow> JUndefined | Some v \<Rightarrow> v)"

fun z_string :: "json \<Rightarrow> error + string" where
  "z_string (JStr s) = Inr s"
| "z_string _ = Inl ZodError"

fun z_number :: "json \<Rightarrow> error + rat" where
  "z_number (JNum n) = Inr n"
| "z_number _ = Inl ZodError"

fun z_boolean :: "json \<Rightarrow> error + bool" where
  "z_boolean (JBool b) = Inr b"
| "z_boolean _ = Inl ZodError"

definition z_refine :: "(string \<Rightarrow> bool) \<Rightarrow> json \<Rightarrow> error + string" where
  "z_refine valid j = (case z_string j of
       Inr s \<Rightarrow> if valid s then Inr s else Inl ZodError
     | Inl e \<Rightarrow> Inl e)"

definition z_enum :: "(string \<times> 'a) list \<Rightarrow> json \<Rightarrow> error + 'a" where
  "z_enum options j = (case z_string j of
       Inr s \<Rightarrow> (case map_of options s of Some v \<Rightarrow> Inr v | None \<Rightarrow> Inl ZodError)
     | Inl e \<Rightarrow> Inl e)"

definition z_optional :: "(json \<Rightarrow> error + 'a) \<Rightarrow> json \<Rightarrow> error + 'a option" where
  "z_optional z j = (if j = JUndefined then Inr None
     else case z j of Inr v \<Rightarrow> Inr (Some v) | Inl e \<Rightarrow> Inl e)"

definition z_default :: "(json \<Rightarrow> error + 'a) \<Rightarrow> 'a \<Rightarrow> json \<Rightarrow> error + 'a" where
  "z_default z v j = (if j = JUndefined then Inr v else z j)"

fun z_strings :: "json list \<Rightarrow> error + string list" where
  "z_strings [] = Inr []"
| "z_strings (j # js) = (case (z_string j, z_strings js) of
       (Inr s, Inr ss) \<Rightarrow> Inr (s # ss)
     | _ \<Rightarrow> Inl ZodError)"

fun z_array_of_strings :: "json \<Rightarrow> error + string list" where
  "z_array_of_strings (JArr js) = z_strings js"
| "z_array_of_strings _ = Inl ZodError"

datatype permission = View | Edit

datatype text_format = Bold | Italic | Underline | Strikethrough

datatype list_type = Bullet | Numbered

datatype download_format = Docx | Pdf | Txt | Markdown

datatype alignment = Left | Center | Right | Justify

record list_documents_params =
  list_searchQuery :: "string option"
  list_limit :: rat

definition ListDocumentsSchema :: "json \<Rightarrow> error + list_documents_params" where
  "ListDocumentsSchema args = (case args of
       JObj kv \<Rightarrow>
         (case (z_optional z_string (field kv ''searchQuery''),
                z_default z_number 20 (field kv ''limit'')) of
            (Inr q, Inr l) \<Rightarrow> Inr \<lparr>list_searchQuery = q, list_limit = l\<rparr>
          | _ \<Rightarrow> Inl ZodError)
     | _ \<Rightarrow> Inl ZodError)"

definition ReadDocumentSchema :: "json \<Rightarrow> error + string" where
  "ReadDocumentSchema args = (case args of
       JObj kv \<Rightarrow> z_string (field kv ''documentUrl'')
     | _ \<Rightarrow> Inl ZodError)"



definition SearchDocumentsSchema :: "json \<Rightarrow> error + string" where
  "SearchDocumentsSchema args = (case args of
       JObj kv \<Rightarrow> z_string (field kv ''query'')
     | _ \<Rightarrow> Inl ZodError)"

record edit_document_params =
  edit_documentUrl :: string
  edit_content :: string
  edit_append :: bool

definition EditDocumentSchema :: "json \<Rightarrow> error + edit_document_params" where
  "EditDocumentSchema args = (case args of
       JObj kv \<Rightarrow>
         (case (z_string (field kv ''documentUrl''),
                z_string (field kv ''content''),
                z_default z_boolean False (field kv ''append'')) of
            (Inr u, Inr c, Inr a) \<Rightarrow>
              Inr \<lparr>edit_documentUrl = u, edit_content = c, edit_append = a\<rparr>
          | _ \<Rightarrow> Inl ZodError)
     | _ \<Rightarrow> Inl ZodError)"

record delete_document_params =
  delete_documentUrl :: string
  delete_permanent :: bool

definition DeleteDocumentSchema :: "json \<Rightarrow> error + delete_document_params" where
  "DeleteDocumentSchema args = (case args of
       JObj kv \<Rightarrow>
         (case (z_string (field kv ''documentUrl''),
                z_default z_boolean False (field kv ''permanent'')) of
            (Inr u, Inr p) \<Rightarrow> Inr \<lparr>delete_documentUrl = u, delete_permanent = p\<rparr>
          | _ \<Rightarrow> Inl ZodError)
     | _ \<Rightarrow> Inl ZodError)"



record format_text_params =
  format_documentUrl :: string
  format_format :: text_format
  format_selection :: "string option"

definition FormatTextSchema :: "json \<Rightarrow> error + format_text_params" where
  "FormatTextSchema args = (case args of
       JObj kv \<Rightarrow>
         (case (z_string (field kv ''documentUrl''),
                z_enum [(''bold'', Bold), (''italic'', Italic), (''underline'', Underline),
                        (''strikethrough'', Strikethrough)] (field kv ''format''),
                z_optional z_string (field kv ''selection'')) of
            (Inr u, Inr f, Inr sel) \<Rightarrow>
              Inr \<lparr>format_documentUrl = u, format_format = f, format_selection = sel\<rparr>
          | _ \<Rightarrow> Inl ZodError)
     | _ \<Rightarrow> Inl ZodError)"

record create_list_params =
  clist_documentUrl :: string
  clist_listType :: list_type
  clist_items :: "string list"

definition CreateListSchema :: "json \<Rightarrow> error + create_list_params" where
  "CreateListSchema args = (case args of
       JObj kv \<Rightarrow>
         (case (z_string (field kv ''documentUrl''),
                z_enum [(''bullet'', Bullet), (''numbered'', Numbered)] (field kv ''listType''),
                z_array_of_strings (field kv ''items'')) of
            (Inr u, Inr t, Inr its) \<Rightarrow>
              Inr \<lparr>clist_documentUrl = u, clist_listType = t, clist_items = its\<rparr>
          | _ \<Rightarrow> Inl ZodError)
     | _ \<Rightarrow> Inl ZodError)"

record insert_link_params =
  link_documentUrl :: string
  link_text :: string
  link_url :: string

definition InsertLinkSchema :: "driver \<Rightarrow> json \<Rightarrow> error + insert_link_params" where
  "InsertLinkSchema d args = (case args of
       JObj kv \<Rightarrow>
         (case (z_string (field kv ''documentUrl''),
                z_string (field kv ''text''),
                z_refine (is_url d) (field kv ''url'')) of
            (Inr u, Inr t, Inr l) \<Rightarrow>
              Inr \<lparr>link_documentUrl = u, link_text = t, link_url = l\<rparr>
          | _ \<Rightarrow> Inl ZodError)
     | _ \<Rightarrow> Inl ZodError)"

record change_font_params =
  font_documentUrl :: string
  font_fontFamily :: "string option"
  font_fontSize :: "rat option"

definition ChangeFontSchema :: "json \<Rightarrow> error + change_font_params" where
  "ChangeFontSchema args = (case args of
       JObj kv \<Rightarrow>
         (case (z_string (field kv ''documentUrl''),
                z_optional z_string (field kv ''fontFamily''),
                z_optional z_number (field kv ''fontSize'')) of
            (Inr u, Inr f, Inr n) \<Rightarrow>
              Inr \<lparr>font_documentUrl = u, font_fontFamily = f, font_fontSize = n\<rparr>
          | _ \<Rightarrow> Inl ZodError)
     | _ \<Rightarrow> Inl ZodError)"

record download_document_params =
  download_documentUrl :: string
  download_format :: download_format





record set_alignment_params =
  align_documentUrl :: string
  align_alignment :: alignment

definition SetAlignmentSchema :: "json \<Rightarrow> error + set_alignment_params" where
  "SetAlignmentSchema args = (case args of
       JObj kv \<Rightarrow>
         (case (z_string (field kv ''documentUrl''),
                z_enum [(''left'', Left), (''center'', Center), (''right'', Right),
                        (''justify'', Justify)] (field kv ''alignment'')) of
            (Inr u, Inr a) \<Rightarrow> Inr \<lparr>align_documentUrl = u, align_alignment = a\<rparr>
          | _ \<Rightarrow> Inl ZodError)
     | _ \<Rightarrow> Inl ZodError)"

section \<open>Results and the callbacks evaluated in the page\<close>

record listed_document =
  doc_title :: string
  doc_viewed :: string
  doc_createdBy :: string
  doc_location :: string
  doc_url :: string

record search_hit =
  hit_title :: string
  hit_url :: string

record version =
  ver_date :: string
  ver_author :: "string option"

text \<open>
  The object each tool passes to \<^verbatim>\<open>JSON.stringify\<close>, one constructor per tool, its
  fields in the order of the source.
\<close>

datatype payload =
    Documents (documents: "listed_document list")
  | Content (content_text: string) (content_html: string)
  | Created (created_success: bool) (created_documentUrl: string) (created_title: string)
  | SearchResults (search_query: string) (search_results: "search_hit list")
      (search_count: nat)
  | Edited bool string string
  | Deleted bool string string
  | Shared bool string string permission
  | Formatted bool text_format bool
  | ListCreated bool list_type nat
  | LinkInserted bool string string
  | FontChanged bool "string option" "rat option"
  | Downloaded bool download_format string
  | Copied bool string string
  | VersionHistory string "version list" nat
  | Aligned bool alignment

text \<open>\<^verbatim>\<open>{ content: [{ type: "text", text: JSON.stringify(payload, null, 2) }] }\<close>\<close>

datatype tool_result = ToolResult (content: "payload list")

definition text_result :: "payload \<Rightarrow> tool_result action" where
  "text_result p = ok (ToolResult [p])"

text \<open>\<^verbatim>\<open>x || dflt\<close> on strings; \<open>None\<close> is \<^verbatim>\<open>undefined\<close> or \<^verbatim>\<open>null\<close>.\<close>

definition js_or :: "string option \<Rightarrow> string \<Rightarrow> string" where
  "js_or x dflt = (case x of None \<Rightarrow> dflt | Some v \<Rightarrow> if v = [] then dflt else v)"

text \<open>\<^verbatim>\<open>if (x) { ... }\<close> on an optional string: the empty string is falsy too.\<close>

definition if_truthy :: "string option \<Rightarrow> (string \<Rightarrow> unit action) \<Rightarrow> unit action" where
  "if_truthy x k = (case x of None \<Rightarrow> ok () | Some v \<Rightarrow> if v = [] then ok () else k v)"

text \<open>Lines 483-506: the loop runs while \<^verbatim>\<open>i < Math.min(rows.length, limit)\<close>.\<close>

definition row_document :: "driver \<Rightarrow> row \<Rightarrow> string \<Rightarrow> listed_document" where
  "row_document d r titleText =
     \<lparr>doc_title = js_or (Some (trim d titleText)) ''Untitled'',
      doc_viewed = js_or (map_option (trim d) (second_cell r)) [],
      doc_createdBy = js_or (map_option (trim d) (third_cell r)) [],
      doc_location = js_or (map_option (trim d) (fourth_cell r)) [],
      doc_url = js_or (data_url r) []\<rparr>"

fun list_rows :: "driver \<Rightarrow> rat \<Rightarrow> nat \<Rightarrow> row list \<Rightarrow> listed_document list" where
  "list_rows d bound i [] = []"
| "list_rows d bound i (r # rs) =
     (if of_nat i < bound
      then (case first_cell r of
              Some titleText \<Rightarrow> [row_document d r titleText]
            | None \<Rightarrow> []) @ list_rows d bound (Suc i) rs
      else [])"

definition extract_documents :: "driver \<Rightarrow> rat \<Rightarrow> row list \<Rightarrow> listed_document list" where
  "extract_documents d limit rows = list_rows d (min (of_nat (length rows)) limit) 0 rows"

text \<open>Lines 637-652.\<close>

fun extract_results :: "driver \<Rightarrow> row list \<Rightarrow> search_hit list" where
  "extract_results d [] = []"
| "extract_results d (r # rs) =
     (case first_cell r of
        Some t \<Rightarrow> [\<lparr>hit_title = js_or (Some (trim d t)) [], hit_url = js_or (data_url r) []\<rparr>]
      | None \<Rightarrow> []) @ extract_results d rs"

text \<open>Lines 535-547.\<close>

definition extract_content :: "iframe option \<Rightarrow> string \<times> string" where
  "extract_content fr = (case fr of
       Some (Iframe (Some (Document (Some editor)))) \<Rightarrow>
         (js_or (Some (textContent editor)) [], js_or (Some (innerHTML editor)) [])
     | _ \<Rightarrow> ([], []))"


definition evaluate_rows :: "driver \<Rightarrow> row list action" where
  "evaluate_rows d = page_ask d Evaluate (table_rows d)"

definition evaluate_editor :: "driver \<Rightarrow> iframe option action" where
  "evaluate_editor d = page_ask d Evaluate (editor_iframe d)"

definition evaluate_versions :: "driver \<Rightarrow> version_item list action" where
  "evaluate_versions d = page_ask d Evaluate (version_items d)"

subsection \<open>Locating the editor frame\<close>

fun starts_with :: "string \<Rightarrow> string \<Rightarrow> bool" where
  "starts_with [] s = True"
| "starts_with (p # ps) [] = False"
| "starts_with (p # ps) (c # cs) = (p = c \<and> starts_with ps cs)"

fun str_includes :: "string \<Rightarrow> string \<Rightarrow> bool" where
  "str_includes sub [] = (sub = [])"
| "str_includes sub (c # cs) = (starts_with sub (c # cs) \<or> str_includes sub cs)"

text \<open>
  \<^verbatim>\<open>this.page!.frames().find(f => f.name().includes('editor') || f.url().includes('editor'))\<close>
\<close>

definition is_editor_frame :: "frame \<Rightarrow> bool" where
  "is_editor_frame f =
     (str_includes ''editor'' (frame_name f) \<or> str_includes ''editor'' (frame_url f))"

definition find_editor_frame :: "driver \<Rightarrow> frame option action" where
  "find_editor_frame d = await (page_frames d) (\<lambda>fs. ok (find is_editor_frame fs))"

subsection \<open>Selectors and addresses\<close>

definition recents_url :: string where
  "recents_url = ''https://docs.proton.me/u/1/recents''"


definition trash_url :: string where
  "trash_url = ''https://docs.proton.me/u/1/trash''"

definition testid :: "string \<Rightarrow> string" where
  \<open>testid name = ''[data-testid="'' @ name @ ''"]''\<close>

definition editor_frame_marker :: string where
  "editor_frame_marker = ''iframe'' @ testid ''editor-frame-edit''"

definition main_editor_sel :: string where
  "main_editor_sel = testid ''main-editor''"

definition has_text :: "string \<Rightarrow> string" where
  \<open>has_text label = ''button:has-text("'' @ label @ ''")''\<close>

definition search_input :: string where
  \<open>search_input = ''input[placeholder*="Search"]''\<close>


definition title_button :: "string \<Rightarrow> string" where
  \<open>title_button label = ''button[title*="'' @ label @ ''"]''\<close>

definition aria_button :: "string \<Rightarrow> string" where
  \<open>aria_button label = ''button[aria-label*="'' @ label @ ''"]''\<close>

section \<open>The tools\<close>

text \<open>
  Every tool has the same shape: parse the arguments, acquire the session, then run a
  \<^verbatim>\<open>try\<close> block whose \<^verbatim>\<open>catch\<close> rethrows as
  \<^verbatim>\<open>McpError(InternalError, `Failed to ...: ${error}`)\<close>. The \<^verbatim>\<open>try\<close> block of a tool
  \<open>t\<close> is the definition \<open>t_try\<close>.
\<close>

definition failed_to :: "driver \<Rightarrow> string \<Rightarrow> error \<Rightarrow> 'a action" where
  "failed_to d what e = throw (McpError InternalError (''Failed to '' @ what @ '': '' @ render d e))"

subsection \<open>\<^verbatim>\<open>listDocuments\<close> (lines 466-520)\<close>

definition listDocuments_try :: "driver \<Rightarrow> list_documents_params \<Rightarrow> tool_result action" where
  "listDocuments_try d params =
     seq (steps
       [goto d recents_url,
        ignore (waitForSelector d ''table'' (Some 10000)),
        if_truthy (list_searchQuery params) (\<lambda>searchQuery.
          steps [page_type d search_input searchQuery,
                 keyboard_press d ''Enter'',
                 waitForTimeout d 1000])])
     (await (evaluate_rows d) (\<lambda>rows.
        text_result (Documents (extract_documents d (list_limit params) rows))))"

definition listDocuments :: "driver \<Rightarrow> json \<Rightarrow> tool_result action" where
  "listDocuments d args =
     await (parse (ListDocumentsSchema args)) (\<lambda>params.
     seq (ensureBrowser d)
       (try_catch (listDocuments_try d params) (failed_to d ''list documents'')))"

subsection \<open>\<^verbatim>\<open>readDocument\<close> (lines 522-561)\<close>

definition readDocument_try :: "driver \<Rightarrow> string \<Rightarrow> tool_result action" where
  "readDocument_try d documentUrl =
     seq (steps
       [goto d documentUrl,
        ignore (waitForSelector d editor_frame_marker (Some 15000))])
     (await (evaluate_editor d) (\<lambda>fr.
        text_result (Content (fst (extract_content fr)) (snd (extract_content fr)))))"

definition readDocument :: "driver \<Rightarrow> json \<Rightarrow> tool_result action" where
  "readDocument d args =
     await (parse (ReadDocumentSchema args)) (\<lambda>documentUrl.
     seq (ensureBrowser d)
       (try_catch (readDocument_try d documentUrl) (failed_to d ''read document'')))"

subsection \<open>\<^verbatim>\<open>createDocument\<close> (lines 563-621)\<close>

definition rename_with :: "driver \<Rightarrow> handle \<Rightarrow> string \<Rightarrow> unit action" where
  "rename_with d h title =
     steps [elem_click d h 3, elem_type d h title, keyboard_press d ''Enter'']"



subsection \<open>\<^verbatim>\<open>searchDocuments\<close> (lines 623-670)\<close>

definition searchDocuments_try :: "driver \<Rightarrow> string \<Rightarrow> tool_result action" where
  "searchDocuments_try d query =
     seq (goto d recents_url)
     (await (waitForSelector d search_input None) (\<lambda>searchInput.
      seq (steps
        [elem_type d searchInput query,
         keyboard_press d ''Enter'',
         waitForTimeout d 2000])
      (await (evaluate_rows d) (\<lambda>rows.
         let results = extract_results d rows
         in text_result (SearchResults query results (length results))))))"

definition searchDocuments :: "driver \<Rightarrow> json \<Rightarrow> tool_result action" where
  "searchDocuments d args =
     await (parse (SearchDocumentsSchema args)) (\<lambda>query.
     seq (ensureBrowser d)
       (try_catch (searchDocuments_try d query) (failed_to d ''search documents'')))"

subsection \<open>\<^verbatim>\<open>editDocument\<close> (lines 672-719)\<close>

definition editDocument_try :: "driver \<Rightarrow> edit_document_params \<Rightarrow> tool_result action" where
  "editDocument_try d params =
     seq (steps
       [goto d (edit_documentUrl params),
        ignore (waitForSelector d editor_frame_marker None),
        await (find_editor_frame d) (\<lambda>frame.
          case frame of
            Some f \<Rightarrow>
              steps
                [frame_click d f main_editor_sel,
                 if edit_append params
                 then steps [keyboard_down d ''Control'',
                             keyboard_press d ''End'',
                             keyboard_up d ''Control'',
                             keyboard_press d ''Enter'']
                 else steps [keyboard_down d ''Control'',
                             keyboard_press d ''a'',
                             keyboard_up d ''Control''],
                 frame_type d f main_editor_sel (edit_content params)]
          | None \<Rightarrow> ok ()),
        waitForTimeout d 2000])
     (text_result (Edited True (edit_documentUrl params)
        (if edit_append params then ''appended'' else ''replaced'')))"

definition editDocument :: "driver \<Rightarrow> json \<Rightarrow> tool_result action" where
  "editDocument d args =
     await (parse (EditDocumentSchema args)) (\<lambda>params.
     seq (ensureBrowser d)
       (try_catch (editDocument_try d params) (failed_to d ''edit document'')))"

subsection \<open>\<^verbatim>\<open>deleteDocument\<close> (lines 721-773)\<close>

definition deleteDocument_try :: "driver \<Rightarrow> delete_document_params \<Rightarrow> tool_result action" where
  "deleteDocument_try d params =
     (if delete_permanent params
      then seq (goto d trash_url)
             (throw (McpError InvalidRequest
                ''Permanent deletion from trash not yet implemented''))
      else seq (steps
             [goto d (delete_documentUrl params),
              page_click d (testid ''document-name-dropdown''),
              ignore (waitForSelector d (testid ''dropdown-move-to-trash'') None),
              page_click d (testid ''dropdown-move-to-trash''),
              await (page_query d (has_text ''Move to trash'')) (\<lambda>confirmButton.
                case confirmButton of
                  Some h \<Rightarrow> elem_click d h 1
                | None \<Rightarrow> ok ()),
              waitForTimeout d 2000])
           (text_result (Deleted True ''moved_to_trash'' (delete_documentUrl params))))"

definition deleteDocument :: "driver \<Rightarrow> json \<Rightarrow> tool_result action" where
  "deleteDocument d args =
     await (parse (DeleteDocumentSchema args)) (\<lambda>params.
     seq (ensureBrowser d)
       (try_catch (deleteDocument_try d params) (failed_to d ''delete document'')))"

subsection \<open>\<^verbatim>\<open>shareDocument\<close> (lines 775-822)\<close>



subsection \<open>\<^verbatim>\<open>formatText\<close> (lines 824-892)\<close>

text \<open>\<^verbatim>\<open>formatMap\<close>: the toolbar selector and the shortcut of each format.\<close>

fun formatMap :: "text_format \<Rightarrow> string \<times> string" where
  "formatMap Bold = (title_button ''Bold'', ''Control+b'')"
| "formatMap Italic = (title_button ''Italic'', ''Control+i'')"
| "formatMap Underline = (title_button ''Underline'', ''Control+u'')"
| "formatMap Strikethrough = (title_button ''Strike'', ''Control+Shift+x'')"

text \<open>\<^verbatim>\<open>shortcut.split('+')\<close>: never the empty list.\<close>

fun split_on :: "char \<Rightarrow> string \<Rightarrow> string list" where
  "split_on c [] = [[]]"
| "split_on c (x # xs) =
     (if x = c then [] # split_on c xs
      else case split_on c xs of
             [] \<Rightarrow> [[x]]
           | w # ws \<Rightarrow> (x # w) # ws)"

text \<open>Lines 863-872: the keyboard shortcut.\<close>

definition press_shortcut :: "driver \<Rightarrow> string \<Rightarrow> unit action" where
  "press_shortcut d shortcut =
     (let keys = split_on CHR ''+'' shortcut
      in steps
           [steps (map (\<lambda>key. if key \<noteq> last keys then keyboard_down d key else ok ()) keys),
            keyboard_press d (last keys),
            steps (map (keyboard_up d) (butlast keys))])"

text \<open>Lines 855-873: the toolbar button first, the shortcut when there is no button.\<close>

definition apply_format :: "driver \<Rightarrow> frame \<Rightarrow> text_format \<Rightarrow> unit action" where
  "apply_format d f fmt =
     await (frame_query d f (fst (formatMap fmt))) (\<lambda>button.
       case button of
         Some h \<Rightarrow> elem_click d h 1
       | None \<Rightarrow> press_shortcut d (snd (formatMap fmt)))"

text \<open>Lines 838-845: the text to format is searched for when a selection is given.\<close>

definition select_text :: "driver \<Rightarrow> frame \<Rightarrow> string option \<Rightarrow> unit action" where
  "select_text d f selection =
     if_truthy selection (\<lambda>selection.
       steps [frame_click d f main_editor_sel,
              keyboard_down d ''Control'',
              keyboard_press d ''f'',
              keyboard_up d ''Control'',
              keyboard_type d selection,
              keyboard_press d ''Escape''])"

definition formatText_try :: "driver \<Rightarrow> format_text_params \<Rightarrow> tool_result action" where
  "formatText_try d params =
     seq (steps
       [goto d (format_documentUrl params),
        ignore (waitForSelector d editor_frame_marker None),
        await (find_editor_frame d) (\<lambda>frame.
          case frame of
            Some f \<Rightarrow>
              steps
                [select_text d f (format_selection params),
                 apply_format d f (format_format params)]
          | None \<Rightarrow> ok ())])
     (text_result (Formatted True (format_format params) True))"

definition formatText :: "driver \<Rightarrow> json \<Rightarrow> tool_result action" where
  "formatText d args =
     await (parse (FormatTextSchema args)) (\<lambda>params.
     seq (ensureBrowser d)
       (try_catch (formatText_try d params) (failed_to d ''format text'')))"

subsection \<open>\<^verbatim>\<open>createList\<close> (lines 894-948)\<close>

text \<open>Lines 920-925: every item is typed, with Enter between two items.\<close>

fun type_items :: "driver \<Rightarrow> frame \<Rightarrow> string list \<Rightarrow> unit action" where
  "type_items d f [] = ok ()"
| "type_items d f [item] = frame_type d f main_editor_sel item"
| "type_items d f (item # rest) =
     steps [frame_type d f main_editor_sel item,
            keyboard_press d ''Enter'',
            type_items d f rest]"

definition list_button :: "list_type \<Rightarrow> string" where
  "list_button t = (if t = Bullet then title_button ''Bullet list''
                    else title_button ''Numbered list'')"

definition createList_try :: "driver \<Rightarrow> create_list_params \<Rightarrow> tool_result action" where
  "createList_try d params =
     seq (steps
       [goto d (clist_documentUrl params),
        ignore (waitForSelector d editor_frame_marker None),
        await (find_editor_frame d) (\<lambda>frame.
          case frame of
            Some f \<Rightarrow>
              steps
                [frame_click d f main_editor_sel,
                 await (frame_query d f (list_button (clist_listType params))) (\<lambda>listButton.
                   case listButton of
                     Some h \<Rightarrow> elem_click d h 1
                   | None \<Rightarrow> ok ()),
                 type_items d f (clist_items params),
                 keyboard_press d ''Enter'',
                 keyboard_press d ''Enter'']
          | None \<Rightarrow> ok ())])
     (text_result (ListCreated True (clist_listType params) (length (clist_items params))))"

definition createList :: "driver \<Rightarrow> json \<Rightarrow> tool_result action" where
  "createList d args =
     await (parse (CreateListSchema args)) (\<lambda>params.
     seq (ensureBrowser d)
       (try_catch (createList_try d params) (failed_to d ''create list'')))"

subsection \<open>\<^verbatim>\<open>insertLink\<close> (lines 950-1003)\<close>

definition insertLink_try :: "driver \<Rightarrow> insert_link_params \<Rightarrow> tool_result action" where
  "insertLink_try d params =
     seq (steps
       [goto d (link_documentUrl params),
        ignore (waitForSelector d editor_frame_marker None),
        await (find_editor_frame d) (\<lambda>frame.
          case frame of
            Some f \<Rightarrow>
              steps
                [frame_click d f main_editor_sel,
                 frame_type d f main_editor_sel (link_text params),
                 steps (replicate (length (link_text params))
                   (steps [keyboard_down d ''Shift'',
                           keyboard_press d ''ArrowLeft'',
                           keyboard_up d ''Shift''])),
                 keyboard_down d ''Control'',
                 keyboard_press d ''k'',
                 keyboard_up d ''Control'',
                 waitForTimeout d 500,
                 keyboard_type d (link_url params),
                 keyboard_press d ''Enter'']
          | None \<Rightarrow> ok ())])
     (text_result (LinkInserted True (link_text params) (link_url params)))"

definition insertLink :: "driver \<Rightarrow> json \<Rightarrow> tool_result action" where
  "insertLink d args =
     await (parse (InsertLinkSchema d args)) (\<lambda>params.
     seq (ensureBrowser d)
       (try_catch (insertLink_try d params) (failed_to d ''insert link'')))"

subsection \<open>\<^verbatim>\<open>changeFont\<close> (lines 1005-1061)\<close>

definition pick_from_menu :: "driver \<Rightarrow> frame \<Rightarrow> string \<Rightarrow> string \<Rightarrow> unit action" where
  "pick_from_menu d f menu label =
     await (frame_query d f menu) (\<lambda>button.
       case button of
         Some h \<Rightarrow> steps [elem_click d h 1, waitForTimeout d 500, page_click d (has_text label)]
       | None \<Rightarrow> ok ())"

definition changeFont_try :: "driver \<Rightarrow> change_font_params \<Rightarrow> tool_result action" where
  "changeFont_try d params =
     seq (steps
       [goto d (font_documentUrl params),
        ignore (waitForSelector d editor_frame_marker None),
        await (find_editor_frame d) (\<lambda>frame.
          case frame of
            Some f \<Rightarrow>
              steps
                [frame_click d f main_editor_sel,
                 keyboard_down d ''Control'',
                 keyboard_press d ''a'',
                 keyboard_up d ''Control'',
                 if_truthy (font_fontFamily params) (\<lambda>fontFamily.
                   pick_from_menu d f (aria_button ''Font'') fontFamily),
                 case font_fontSize params of
                   Some fontSize \<Rightarrow>
                     if fontSize = 0 then ok ()
                     else pick_from_menu d f (aria_button ''Font size'')
                            (number_text d fontSize @ ''px'')
                 | None \<Rightarrow> ok ()]
          | None \<Rightarrow> ok ())])
     (text_result (FontChanged True (font_fontFamily params) (font_fontSize params)))"

definition changeFont :: "driver \<Rightarrow> json \<Rightarrow> tool_result action" where
  "changeFont d args =
     await (parse (ChangeFontSchema args)) (\<lambda>params.
     seq (ensureBrowser d)
       (try_catch (changeFont_try d params) (failed_to d ''change font'')))"

subsection \<open>\<^verbatim>\<open>downloadDocument\<close> (lines 1063-1105)\<close>




subsection \<open>\<^verbatim>\<open>copyDocument\<close> (lines 1107-1147)\<close>



subsection \<open>\<^verbatim>\<open>getVersionHistory\<close> (lines 1149-1197)\<close>



subsection \<open>\<^verbatim>\<open>setAlignment\<close> (lines 1199-1248)\<close>

fun alignmentMap :: "alignment \<Rightarrow> string" where
  "alignmentMap Left = title_button ''Align left''"
| "alignmentMap Center = title_button ''Align center''"
| "alignmentMap Right = title_button ''Align right''"
| "alignmentMap Justify = title_button ''Justify''"

definition setAlignment_try :: "driver \<Rightarrow> set_alignment_params \<Rightarrow> tool_result action" where
  "setAlignment_try d params =
     seq (steps
       [goto d (align_documentUrl params),
        ignore (waitForSelector d editor_frame_marker None),
        await (find_editor_frame d) (\<lambda>frame.
          case frame of
            Some f \<Rightarrow>
              steps
                [frame_click d f main_editor_sel,
                 keyboard_down d ''Control'',
                 keyboard_press d ''a'',
                 keyboard_up d ''Control'',
                 await (frame_query d f (alignmentMap (align_alignment params)))
                   (\<lambda>alignButton.
                      case alignButton of
                        Some h \<Rightarrow> elem_click d h 1
                      | None \<Rightarrow> ok ())]
          | None \<Rightarrow> ok ())])
     (text_result (Aligned True (align_alignment params)))"

definition setAlignment :: "driver \<Rightarrow> json \<Rightarrow> tool_result action" where
  "setAlignment d args =
     await (parse (SetAlignmentSchema args)) (\<lambda>params.
     seq (ensureBrowser d)
       (try_catch (setAlignment_try d params) (failed_to d ''set alignment'')))"

subsection \<open>The request handler (lines 425-463)\<close>



section \<open>Scripted surfaces\<close>

text \<open>
  Drivers whose answers do not depend on the history, used to run the tools on concrete
  inputs: no call fails, the frames, the elements that exist and the table rows are
  given.
\<close>

fun render_error :: "error \<Rightarrow> string" where
  "render_error (McpError c m) = ''McpError: '' @ m"
| "render_error ZodError = ''ZodError''"
| "render_error (DriverError m) = ''Error: '' @ m"
| "render_error TypeError = ''TypeError''"

definition scripted :: "frame list \<Rightarrow> (handle \<Rightarrow> bool) \<Rightarrow> row list \<Rightarrow> driver" where
  "scripted fs present rows =
     \<lparr>raises = (\<lambda>tr c. None),
      found = (\<lambda>tr. present),
      frames = (\<lambda>tr. fs),
      url = (\<lambda>tr. ''https://docs.proton.me/u/1/doc/1''),
      table_rows = (\<lambda>tr. rows),
      editor_iframe = (\<lambda>tr. None),
      version_items = (\<lambda>tr. []),
      render = render_error,
      trim = (\<lambda>s. s),
      number_text = (\<lambda>n. []),
      is_email = (\<lambda>s. True),
      is_url = (\<lambda>s. True)\<rparr>"

definition titled_row :: "string \<Rightarrow> row" where
  "titled_row t = \<lparr>first_cell = Some t, second_cell = None, third_cell = None,
     fourth_cell = None, data_url = None\<rparr>"

definition eight_rows :: "row list" where
  "eight_rows = map titled_row [''a'', ''b'', ''c'', ''d'', ''e'', ''f'', ''g'', ''h'']"

definition editor_frame :: frame where
  "editor_frame = Frame ''editor'' ''about:blank''"

definition sample_url :: string where
  "sample_url = ''https://docs.proton.me/u/1/doc/1''"

text \<open>A page whose only frame is not the editor's, and one with the editor's frame.\<close>

definition plain_page :: driver where
  "plain_page = scripted [Frame ''main'' sample_url] (\<lambda>h. False) []"

definition editor_page :: driver where
  "editor_page = scripted [editor_frame] (\<lambda>h. False) []"


text \<open>A driver on which no call fails.\<close>

definition calm :: "driver \<Rightarrow> bool" where
  "calm d = (\<forall>tr c. raises d tr c = None)"

section \<open>Notions used in the statements\<close>

text \<open>The number of entries in the payload of a \<^verbatim>\<open>list_documents\<close> run that returned.\<close>

definition document_count :: "(error + tool_result) \<times> server \<Rightarrow> nat option" where
  "document_count out = (case fst out of
       Inr (ToolResult [Documents docs]) \<Rightarrow> Some (length docs)
     | _ \<Rightarrow> None)"

text \<open>
  The editor cannot be read: there is no editor iframe, or it has no content document, or
  that document has no main-editor element.
\<close>

definition editor_missing :: "iframe option \<Rightarrow> bool" where
  "editor_missing fr = (case fr of
       None \<Rightarrow> True
     | Some (Iframe None) \<Rightarrow> True
     | Some (Iframe (Some (Document None))) \<Rightarrow> True
     | Some (Iframe (Some (Document (Some editor)))) \<Rightarrow> False)"


text \<open>
  The server state once the session is acquired from \<open>s\<close> and the calls \<open>cs\<close> have been
  issued after that.
\<close>

definition issued :: "driver \<Rightarrow> server \<Rightarrow> call list \<Rightarrow> server" where
  "issued d s cs = (snd (ensureBrowser d s))\<lparr>trace := trace (snd (ensureBrowser d s)) @ cs\<rparr>"

text \<open>The calls of the optional selection step of \<^verbatim>\<open>formatText\<close> (lines 838-845).\<close>

definition selection_calls :: "frame \<Rightarrow> string option \<Rightarrow> call list" where
  "selection_calls f selection = (case selection of
       None \<Rightarrow> []
     | Some v \<Rightarrow>
         if v = [] then []
         else [FrameClick f main_editor_sel, KeyDown ''Control'', KeyPress ''f'',
               KeyUp ''Control'', KeyType v, KeyPress ''Escape''])"

text \<open>The calls that type the items of a list (lines 920-925).\<close>

fun item_calls :: "frame \<Rightarrow> string list \<Rightarrow> call list" where
  "item_calls f [] = []"
| "item_calls f [item] = [FrameType f main_editor_sel item]"
| "item_calls f (item # rest) =
     FrameType f main_editor_sel item # KeyPress ''Enter'' # item_calls f rest"

text \<open>The modifier keys and the last key of each format's shortcut.\<close>

fun modifiers :: "text_format \<Rightarrow> string list" where
  "modifiers Bold = [''Control'']"
| "modifiers Italic = [''Control'']"
| "modifiers Underline = [''Control'']"
| "modifiers Strikethrough = [''Control'', ''Shift'']"

fun terminal_key :: "text_format \<Rightarrow> string" where
  "terminal_key Bold = ''b''"
| "terminal_key Italic = ''i''"
| "terminal_key Underline = ''u''"
| "terminal_key Strikethrough = ''x''"

text \<open>The keys pressed down, and the keys released, in the order of the trace.\<close>

fun held :: "call list \<Rightarrow> string list" where
  "held [] = []"
| "held (KeyDown k # cs) = k # held cs"
| "held (c # cs) = held cs"

fun released :: "call list \<Rightarrow> string list" where
  "released [] = []"
| "released (KeyUp k # cs) = k # released cs"
| "released (c # cs) = released cs"

text \<open>The error thrown at lines 734-737.\<close>

definition not_implemented :: error where
  "not_implemented =
     McpError InvalidRequest ''Permanent deletion from trash not yet implemented''"

text \<open>The number of browser launches recorded so far.\<close>

definition launches :: "server \<Rightarrow> nat" where
  "launches s = count_list (trace s) Launch"




text \<open>
  An action that leaves the session alone: it keeps the browser and the page of the
  server and launches nothing.
\<close>

definition quiet :: "'a action \<Rightarrow> bool" where
  "quiet m = (\<forall>s. browser (snd (m s)) = browser s \<and> page (snd (m s)) = page s \<and>
                  launches (snd (m s)) = launches s)"




section \<open>Running actions\<close>

lemma ok_run: "ok x s = (Inr x, s)"
  by (simp add: ok_def)

lemma throw_run: "throw e s = (Inl e, s)"
  by (simp add: throw_def)

lemma await_Inr:
  "await m k s = (Inr r, s') \<longleftrightarrow> (\<exists>x s1. m s = (Inr x, s1) \<and> k x s1 = (Inr r, s'))"
  by (auto simp: await_def split: prod.splits sum.splits)

lemma seq_Inr:
  "seq m n s = (Inr r, s') \<longleftrightarrow> (\<exists>s1. m s = (Inr (), s1) \<and> n s1 = (Inr r, s'))"
  by (simp add: seq_def await_Inr)

lemma ignore_Inr: "ignore m s = (Inr u, s') \<longleftrightarrow> (\<exists>x. m s = (Inr x, s'))"
  by (auto simp: ignore_def await_Inr ok_def)

lemma try_catch_failed_Inr:
  "try_catch m (failed_to d w) s = (Inr r, s') \<longleftrightarrow> m s = (Inr r, s')"
  by (auto simp: try_catch_def failed_to_def throw_def split: prod.splits sum.splits)

lemma try_catch_failed_Inl:
  "try_catch m (failed_to d w) s = (Inl e, s') \<longleftrightarrow>
     (\<exists>c. m s = (Inl c, s') \<and>
          e = McpError InternalError (''Failed to '' @ w @ '': '' @ render d c))"
  by (auto simp: try_catch_def failed_to_def throw_def split: prod.splits sum.splits)

lemma try_catch_fst_Inr: "fst (m s) = Inr r \<Longrightarrow> fst (try_catch m h s) = Inr r"
  by (auto simp: try_catch_def split: prod.splits sum.splits)

lemma parse_Inr: "parse x s = (Inr r, s') \<longleftrightarrow> x = Inr r \<and> s' = s"
  by (auto simp: parse_def ok_def throw_def split: sum.splits)

lemma perform_Inr:
  "perform d c s = (Inr u, s') \<longleftrightarrow>
     raises d (trace s) c = None \<and> s' = s\<lparr>trace := trace s @ [c]\<rparr>"
  by (auto simp: perform_def Let_def split: option.splits)

lemma ask_Inr:
  "ask d c a s = (Inr x, s') \<longleftrightarrow>
     raises d (trace s) c = None \<and> x = a (trace s) \<and> s' = s\<lparr>trace := trace s @ [c]\<rparr>"
  by (auto simp: ask_def perform_def Let_def split: option.splits)

lemma page_call_Inr:
  "page_call d c s = (Inr u, s') \<longleftrightarrow>
     on_page s \<and> raises d (trace s) c = None \<and> s' = s\<lparr>trace := trace s @ [c]\<rparr>"
  by (auto simp: page_call_def perform_Inr)

lemma page_ask_Inr:
  "page_ask d c a s = (Inr x, s') \<longleftrightarrow>
     on_page s \<and> raises d (trace s) c = None \<and> x = a (trace s) \<and>
     s' = s\<lparr>trace := trace s @ [c]\<rparr>"
  by (auto simp: page_ask_def ask_Inr)

lemma if_truthy_Inr:
  "if_truthy x k s = (Inr u, s') \<longleftrightarrow>
     (case x of
        None \<Rightarrow> s' = s
      | Some v \<Rightarrow> if v = [] then s' = s else k v s = (Inr u, s'))"
  by (auto simp: if_truthy_def ok_def split: option.splits)

text \<open>What a run that returned went through.\<close>

lemmas success =
  await_Inr seq_Inr ignore_Inr try_catch_failed_Inr parse_Inr perform_Inr ask_Inr
  page_call_Inr page_ask_Inr ok_run throw_run text_result_def

text \<open>Unfolding everything, to run a tool on a scripted surface.\<close>

lemmas run_defs =
  ok_def throw_def await_def seq_def ignore_def try_catch_def parse_def
  perform_def ask_def on_page_def page_call_def page_ask_def goto_def waitForSelector_def
  waitForTimeout_def page_query_def page_click_def page_type_def keyboard_down_def
  keyboard_up_def keyboard_press_def keyboard_type_def page_frames_def page_url_def
  frame_query_def frame_click_def frame_type_def elem_click_def elem_type_def
  ensureBrowser_def text_result_def failed_to_def if_truthy_def evaluate_rows_def
  evaluate_editor_def evaluate_versions_def find_editor_frame_def scripted_def initial_def
  Let_def field_def z_optional_def z_default_def z_enum_def z_refine_def
  select_text_def apply_format_def press_shortcut_def rename_with_def pick_from_menu_def
  is_editor_frame_def editor_frame_def

lemma ensureBrowser_Inr:
  assumes "ensureBrowser d s = (Inr u, s1)"
  shows "on_page s1" and "browser s1 \<noteq> None"
  using assms
  by (auto simp: ensureBrowser_def success on_page_def split: if_splits)

text \<open>Once the arguments are accepted and the session is there, a tool is its \<^verbatim>\<open>try\<close> block.\<close>

lemma tool_run:
  assumes "ensureBrowser d s = (Inr (), s1)"
  shows "await (parse (Inr p)) (\<lambda>params. seq (ensureBrowser d)
           (try_catch (body params) (failed_to d w))) s
         = try_catch (body p) (failed_to d w) s1"
  using assms by (simp add: await_def seq_def parse_def ok_def)

section \<open>Search results\<close>

text \<open>
  Claim C9. Every \<^verbatim>\<open>search_documents\<close> run that returns has a consistent payload: the
  arguments were an object whose \<^verbatim>\<open>query\<close> field is a string, the payload's \<^verbatim>\<open>query\<close> is
  that string, and its \<^verbatim>\<open>count\<close> is the number of entries of its \<^verbatim>\<open>results\<close>.
\<close>

theorem search_count_and_query:
  assumes "searchDocuments d args s = (Inr r, s')"
  shows "\<exists>kv q results. args = JObj kv \<and> field kv ''query'' = JStr q \<and>
           content r = [SearchResults q results (length results)]"
proof -
  from assms obtain q s1 where q: "SearchDocumentsSchema args = Inr q"
    and run: "searchDocuments_try d q s1 = (Inr r, s')"
    by (auto simp: searchDocuments_def success)
  from q obtain kv where "args = JObj kv" "field kv ''query'' = JStr q"
    by (auto simp: SearchDocumentsSchema_def split: json.splits elim: z_string.elims)
  moreover from run have "\<exists>results. content r = [SearchResults q results (length results)]"
    by (auto simp: searchDocuments_try_def success Let_def)
  ultimately show ?thesis by blast
qed

theorem search_count_and_query_witness:
  "\<exists>r s'. searchDocuments (scripted [] (\<lambda>h. False) eight_rows)
             (JObj [(''query'', JStr ''MCP'')]) initial = (Inr r, s') \<and>
          (\<exists>kv q results. JObj [(''query'', JStr ''MCP'')] = JObj kv \<and>
             field kv ''query'' = JStr q \<and>
             content r = [SearchResults q results (length results)])"
proof -
  obtain r s' where run: "searchDocuments (scripted [] (\<lambda>h. False) eight_rows)
      (JObj [(''query'', JStr ''MCP'')]) initial = (Inr r, s')"
    by (simp add: searchDocuments_def searchDocuments_try_def SearchDocumentsSchema_def run_defs)
  from search_count_and_query [OF run] run show ?thesis by blast
qed

section \<open>Listing documents\<close>

lemma list_rows_take:
  "list_rows d b i rs =
     concat (map (\<lambda>r. case first_cell r of Some t \<Rightarrow> [row_document d r t] | None \<Rightarrow> [])
       (take (nat \<lceil>b\<rceil> - i) rs))"
proof (induction rs arbitrary: i)
  case Nil
  show ?case by simp
next
  case (Cons r rs)
  have iff: "of_nat i < b \<longleftrightarrow> i < nat \<lceil>b\<rceil>"
    by (metis less_ceiling_iff of_int_of_nat_eq zless_nat_eq_int_zless)
  show ?case
  proof (cases "of_nat i < b")
    case True
    then have "nat \<lceil>b\<rceil> - i = Suc (nat \<lceil>b\<rceil> - Suc i)" using iff by simp
    with True Cons.IH [of "Suc i"] show ?thesis by simp
  next
    case False
    then have "nat \<lceil>b\<rceil> - i = 0" using iff by simp
    with False show ?thesis by simp
  qed
qed

lemma length_concat_option:
  "length (concat (map (\<lambda>r. case f r of Some t \<Rightarrow> [g r t] | None \<Rightarrow> []) rs)) \<le> length rs"
  by (induction rs) (auto split: option.splits)

lemma concat_all_some:
  "\<forall>r\<in>set rs. f r \<noteq> None \<Longrightarrow>
   concat (map (\<lambda>r. case f r of Some t \<Rightarrow> [g r t] | None \<Rightarrow> []) rs)
     = map (\<lambda>r. g r (the (f r))) rs"
  by (induction rs) (auto split: option.splits)

lemma extract_documents_bound:
  "length (extract_documents d limit rows) \<le> nat \<lceil>min (of_nat (length rows)) limit\<rceil>"
proof -
  have "length (extract_documents d limit rows)
          \<le> length (take (nat \<lceil>min (of_nat (length rows)) limit\<rceil>) rows)"
    unfolding extract_documents_def list_rows_take
    by (simp only: minus_nat.diff_0 length_concat_option)
  also have "\<dots> \<le> nat \<lceil>min (of_nat (length rows)) limit\<rceil>" by simp
  finally show ?thesis .
qed

lemma extract_documents_five_of_eight:
  assumes "length rows = 8" and "\<forall>r\<in>set rows. first_cell r \<noteq> None"
  shows "extract_documents d 5 rows
           = map (\<lambda>r. row_document d r (the (first_cell r))) (take 5 rows)"
proof -
  have "nat \<lceil>min (of_nat (length rows)) (5::rat)\<rceil> = 5" using assms(1) by simp
  moreover have "\<forall>r\<in>set (take 5 rows). first_cell r \<noteq> None"
    using assms(2) by (meson in_set_takeD)
  ultimately show ?thesis
    unfolding extract_documents_def list_rows_take by (simp add: concat_all_some)
qed

lemma listDocuments_try_Inr:
  assumes "listDocuments_try d params s1 = (Inr r, s')"
  shows "content r = [Documents (extract_documents d (list_limit params)
           (table_rows d (butlast (trace s'))))]"
  using assms
  apply (simp add: listDocuments_try_def success evaluate_rows_def)
  apply (elim exE conjE, hypsubst_thin)
  apply simp
  done

text \<open>
  Claim C7, as amended. When \<^verbatim>\<open>list_documents\<close> returns, its payload is computed from the
  rows the page had at the \<^verbatim>\<open>evaluate\<close> call (the last call of the run): with \<open>limit = 5\<close>,
  8 rows and a title cell in each, it holds exactly the first 5 rows, in row order; in
  general the number of entries is at most \<open>min(limit, number of rows)\<close> rounded up to
  the next integer, and 0 when that is negative.
\<close>

theorem list_documents_limit:
  assumes "listDocuments d args s = (Inr r, s')"
  shows "\<exists>kv limit rows.
           args = JObj kv \<and> z_default z_number 20 (field kv ''limit'') = Inr limit \<and>
           rows = table_rows d (butlast (trace s')) \<and>
           content r = [Documents (extract_documents d limit rows)] \<and>
           length (extract_documents d limit rows)
             \<le> nat \<lceil>min (of_nat (length rows)) limit\<rceil> \<and>
           (limit = 5 \<longrightarrow> length rows = 8 \<longrightarrow> (\<forall>x\<in>set rows. first_cell x \<noteq> None) \<longrightarrow>
              extract_documents d limit rows =
                map (\<lambda>x. row_document d x (the (first_cell x))) (take 5 rows))"
proof -
  from assms obtain params s1 where p: "ListDocumentsSchema args = Inr params"
    and run: "listDocuments_try d params s1 = (Inr r, s')"
    by (auto simp: listDocuments_def success)
  from p obtain kv where kv: "args = JObj kv"
    "z_default z_number 20 (field kv ''limit'') = Inr (list_limit params)"
    by (auto simp: ListDocumentsSchema_def split: json.splits sum.splits)
  define rows where "rows = table_rows d (butlast (trace s'))"
  have c: "content r = [Documents (extract_documents d (list_limit params) rows)]"
    unfolding rows_def using run by (rule listDocuments_try_Inr)
  have b: "length (extract_documents d (list_limit params) rows)
             \<le> nat \<lceil>min (of_nat (length rows)) (list_limit params)\<rceil>"
    by (rule extract_documents_bound)
  have f: "list_limit params = 5 \<longrightarrow> length rows = 8 \<longrightarrow>
             (\<forall>x\<in>set rows. first_cell x \<noteq> None) \<longrightarrow>
              extract_documents d (list_limit params) rows =
                map (\<lambda>x. row_document d x (the (first_cell x))) (take 5 rows)"
    using extract_documents_five_of_eight [of rows d] by simp
  show ?thesis
    apply (rule exI [of _ kv], rule exI [of _ "list_limit params"], rule exI [of _ rows])
    using kv c b f rows_def by simp
qed

theorem list_documents_limit_witness:
  "\<exists>r s'. listDocuments (scripted [] (\<lambda>h. False) eight_rows)
             (JObj [(''limit'', JNum 5)]) initial = (Inr r, s') \<and>
          length eight_rows = 8 \<and> (\<forall>x\<in>set eight_rows. first_cell x \<noteq> None) \<and>
          content r = [Documents (map (\<lambda>x. row_document (scripted [] (\<lambda>h. False) eight_rows)
                                         x (the (first_cell x))) (take 5 eight_rows))]"
proof -
  let ?D = "scripted [] (\<lambda>h. False) eight_rows"
  let ?A = "JObj [(''limit'', JNum 5)]"
  obtain r s' where run: "listDocuments ?D ?A initial = (Inr r, s')"
    and tr: "table_rows ?D (butlast (trace s')) = eight_rows"
    by (simp add: listDocuments_def listDocuments_try_def ListDocumentsSchema_def run_defs)
  have len: "length eight_rows = 8" and cells: "\<forall>x\<in>set eight_rows. first_cell x \<noteq> None"
    by (simp_all add: eight_rows_def titled_row_def)
  from list_documents_limit [OF run] tr len cells
  have "content r = [Documents (map (\<lambda>x. row_document ?D x (the (first_cell x)))
                       (take 5 eight_rows))]"
    by (auto simp: z_default_def field_def)
  with run len cells show ?thesis by blast
qed

text \<open>
  The claim as written bounds the number of entries by \<open>min(limit, number of rows)\<close>
  itself. The schema accepts any number: with \<open>limit = 2.5\<close> and 8 rows the loop runs for
  \<open>i = 0, 1, 2\<close> and returns 3 entries, and with \<open>limit = -1\<close> it returns 0 entries, more
  than \<open>-1\<close>.
\<close>

theorem list_documents_limit_counterexample:
  "document_count (listDocuments (scripted [] (\<lambda>h. False) eight_rows)
       (JObj [(''limit'', JNum (5 / 2))]) initial) = Some 3
   \<and> \<not> (of_nat 3 \<le> min (5 / 2 :: rat) (of_nat (length eight_rows)))
   \<and> document_count (listDocuments (scripted [] (\<lambda>h. False) eight_rows)
       (JObj [(''limit'', JNum (- 1))]) initial) = Some 0
   \<and> \<not> (of_nat 0 \<le> min (- 1 :: rat) (of_nat (length eight_rows)))"
  by (simp add: document_count_def listDocuments_def listDocuments_try_def
      ListDocumentsSchema_def run_defs extract_documents_def eight_rows_def titled_row_def)

section \<open>Reading a document\<close>

lemma extract_content_missing: "editor_missing fr \<Longrightarrow> extract_content fr = ([], [])"
  by (auto simp: editor_missing_def extract_content_def
      split: option.splits iframe.splits document.splits)

text \<open>
  Claim C10. Once the session is there, the navigation returned and the editor-frame
  marker appeared, a \<^verbatim>\<open>read_document\<close> whose \<^verbatim>\<open>evaluate\<close> call returns does not fail for a
  missing editor: when the iframe, its content document or the main-editor element is
  absent at the extraction, the result is a success with empty text and empty html.
\<close>

theorem read_document_missing_editor:
  assumes args: "ReadDocumentSchema args = Inr u"
    and session: "ensureBrowser d s = (Inr (), s1)"
    and navigated: "raises d (trace s1) (Goto u) = None"
    and marker: "raises d (trace s1 @ [Goto u])
                   (WaitForSelector editor_frame_marker (Some 15000)) = None"
    and evaluated: "raises d (trace s1 @ [Goto u,
                      WaitForSelector editor_frame_marker (Some 15000)]) Evaluate = None"
    and missing: "editor_missing (editor_iframe d (trace s1 @ [Goto u,
                    WaitForSelector editor_frame_marker (Some 15000)]))"
  shows "fst (readDocument d args s) = Inr (ToolResult [Content [] []])"
proof -
  have page: "on_page s1" using session by (rule ensureBrowser_Inr)
  have "fst (readDocument_try d u s1) = Inr (ToolResult [Content [] []])"
    using page navigated marker evaluated extract_content_missing [OF missing]
    by (simp add: readDocument_try_def run_defs)
  then show ?thesis
    using args by (simp add: readDocument_def tool_run [OF session] try_catch_fst_Inr)
qed

theorem read_document_missing_editor_witness:
  "editor_missing (editor_iframe (scripted [] (\<lambda>h. False) [])
      [Launch, NewPage, SetViewport 1280 800, Goto ''https://docs.proton.me/u/1/doc/1'',
       WaitForSelector editor_frame_marker (Some 15000)]) \<and>
   fst (readDocument (scripted [] (\<lambda>h. False) [])
     (JObj [(''documentUrl'', JStr ''https://docs.proton.me/u/1/doc/1'')]) initial)
     = Inr (ToolResult [Content [] []])"
proof -
  let ?D = "scripted [] (\<lambda>h. False) []"
  let ?u = "''https://docs.proton.me/u/1/doc/1''"
  let ?s1 = "\<lparr>browser = Some (Browser 0), page = Some (Page 1),
              trace = [Launch, NewPage, SetViewport 1280 800]\<rparr>"
  have args: "ReadDocumentSchema (JObj [(''documentUrl'', JStr ?u)]) = Inr ?u"
    by (simp add: ReadDocumentSchema_def field_def)
  have session: "ensureBrowser ?D initial = (Inr (), ?s1)"
    by (simp add: run_defs)
  have missing: "editor_missing (editor_iframe ?D (trace ?s1 @ [Goto ?u,
      WaitForSelector editor_frame_marker (Some 15000)]))"
    by (simp add: scripted_def editor_missing_def)
  have quiet: "\<And>tr c. raises ?D tr c = None"
    by (simp add: scripted_def)
  from read_document_missing_editor [OF args session quiet quiet quiet missing] missing
  show ?thesis by simp
qed

section \<open>Creating a document\<close>




section \<open>Deleting a document\<close>

text \<open>
  Claim C1, as amended. A \<^verbatim>\<open>delete_document\<close> with \<open>permanent = true\<close> always fails.
  Once the session is acquired it issues exactly one call on the page, the navigation to
  the trash listing, and no element interaction; when that navigation returns, the failure
  is the not-implemented error (code \<open>InvalidRequest\<close>) wrapped by the \<^verbatim>\<open>catch\<close> block as
  \<open>InternalError\<close>, \<open>Failed to delete document: ...\<close>.
\<close>

theorem delete_permanent_navigates_then_fails:
  assumes url: "field kv ''documentUrl'' = JStr u"
    and permanent: "field kv ''permanent'' = JBool True"
  shows "\<exists>e s'. deleteDocument d (JObj kv) s = (Inl e, s') \<and>
           (\<forall>s1. ensureBrowser d s = (Inr (), s1) \<longrightarrow>
              s' = s1\<lparr>trace := trace s1 @ [Goto trash_url]\<rparr> \<and>
              (raises d (trace s1) (Goto trash_url) = None \<longrightarrow>
                 e = McpError InternalError
                       (''Failed to delete document: '' @ render d not_implemented)))"
proof -
  let ?p = "\<lparr>delete_documentUrl = u, delete_permanent = True\<rparr>"
  have p: "DeleteDocumentSchema (JObj kv) = Inr ?p"
    using url permanent by (simp add: DeleteDocumentSchema_def z_default_def)
  obtain x s1 where e: "ensureBrowser d s = (x, s1)" by (cases "ensureBrowser d s")
  show ?thesis
  proof (cases x)
    case (Inl err)
    with e p show ?thesis
      by (simp add: deleteDocument_def await_def seq_def parse_def ok_def)
  next
    case (Inr v)
    with e have session: "ensureBrowser d s = (Inr (), s1)" by simp
    then have page: "on_page s1" by (rule ensureBrowser_Inr)
    have "deleteDocument d (JObj kv) s
            = try_catch (deleteDocument_try d ?p) (failed_to d ''delete document'') s1"
      by (simp add: deleteDocument_def p tool_run [OF session])
    also have "deleteDocument_try d ?p = seq (goto d trash_url) (throw not_implemented)"
      by (simp add: deleteDocument_try_def not_implemented_def)
    finally show ?thesis
      using page session
      by (simp add: try_catch_def failed_to_def throw_def seq_def await_def goto_def
          page_call_def perform_def Let_def split: option.splits)
  qed
qed

theorem delete_permanent_navigates_then_fails_witness:
  "\<exists>e s'. deleteDocument (scripted [] (\<lambda>h. False) [])
       (JObj [(''documentUrl'', JStr ''https://docs.proton.me/u/1/doc/1''),
              (''permanent'', JBool True)]) initial = (Inl e, s') \<and>
     (\<forall>s1. ensureBrowser (scripted [] (\<lambda>h. False) []) initial = (Inr (), s1) \<longrightarrow>
        s' = s1\<lparr>trace := trace s1 @ [Goto trash_url]\<rparr> \<and>
        (raises (scripted [] (\<lambda>h. False) []) (trace s1) (Goto trash_url) = None \<longrightarrow>
           e = McpError InternalError (''Failed to delete document: '' @
                 render (scripted [] (\<lambda>h. False) []) not_implemented)))"
  using delete_permanent_navigates_then_fails
    [of "[(''documentUrl'', JStr ''https://docs.proton.me/u/1/doc/1''),
          (''permanent'', JBool True)]" "''https://docs.proton.me/u/1/doc/1''"
        "scripted [] (\<lambda>h. False) []" initial]
  by (simp add: field_def)

text \<open>
  The claim as written has no navigation before the failure; the run on a scripted surface
  records the navigation to the trash listing, and the error that reaches the caller has
  the code \<open>InternalError\<close>.
\<close>

theorem delete_permanent_counterexample:
  "deleteDocument (scripted [] (\<lambda>h. False) [])
       (JObj [(''documentUrl'', JStr ''https://docs.proton.me/u/1/doc/1''),
              (''permanent'', JBool True)]) initial
     = (Inl (McpError InternalError
          ''Failed to delete document: McpError: Permanent deletion from trash not yet implemented''),
        \<lparr>browser = Some (Browser 0), page = Some (Page 1),
         trace = [Launch, NewPage, SetViewport 1280 800, Goto trash_url]\<rparr>)"
  by (simp add: deleteDocument_def deleteDocument_try_def DeleteDocumentSchema_def run_defs)

section \<open>Calm drivers\<close>

lemma on_page_trace [simp]: "on_page (s\<lparr>trace := t\<rparr>) = on_page s"
  by (simp add: on_page_def)

lemma calm_perform: "calm d \<Longrightarrow> perform d c s = (Inr (), s\<lparr>trace := trace s @ [c]\<rparr>)"
  by (simp add: calm_def perform_def Let_def)

lemma calm_ask: "calm d \<Longrightarrow> ask d c a s = (Inr (a (trace s)), s\<lparr>trace := trace s @ [c]\<rparr>)"
  by (simp add: ask_def calm_perform)

lemma calm_page_call:
  "calm d \<Longrightarrow> on_page s \<Longrightarrow> page_call d c s = (Inr (), s\<lparr>trace := trace s @ [c]\<rparr>)"
  by (simp add: page_call_def calm_perform)

lemma calm_page_ask:
  "calm d \<Longrightarrow> on_page s \<Longrightarrow>
   page_ask d c a s = (Inr (a (trace s)), s\<lparr>trace := trace s @ [c]\<rparr>)"
  by (simp add: page_ask_def calm_ask)

lemma calm_ensureBrowser:
  assumes "calm d"
  shows "ensureBrowser d s = (Inr (), snd (ensureBrowser d s))"
    and "on_page (snd (ensureBrowser d s))"
  using assms
  by (auto simp: ensureBrowser_def seq_def await_def calm_ask calm_page_call on_page_def
      page_call_def calm_perform)

text \<open>A tool on a calm driver: the session is acquired, then the body runs.\<close>

lemma calm_tool:
  assumes "calm d" and "body p (snd (ensureBrowser d s)) = (Inr r, s')"
  shows "await (parse (Inr p)) (\<lambda>params. seq (ensureBrowser d)
           (try_catch (body params) (failed_to d w))) s = (Inr r, s')"
  using assms(2) tool_run [OF calm_ensureBrowser(1) [OF assms(1)], of p body w s]
  by (simp add: try_catch_def)

lemmas calm_run =
  calm_perform calm_ask calm_page_call calm_page_ask
  goto_def waitForSelector_def waitForTimeout_def page_query_def page_click_def page_type_def
  keyboard_down_def keyboard_up_def keyboard_press_def keyboard_type_def page_frames_def
  page_url_def frame_query_def frame_click_def frame_type_def elem_click_def elem_type_def
  find_editor_frame_def seq_def await_def ignore_def ok_def text_result_def

lemma calm_scripted: "calm (scripted fs present rows)"
  by (simp add: calm_def scripted_def)

section \<open>No editor frame\<close>

lemma no_frame_edit:
  assumes "calm d" and "\<forall>tr. find is_editor_frame (frames d tr) = None" and "on_page s1"
  shows "editDocument_try d p s1 =
      (Inr (ToolResult [Edited True (edit_documentUrl p)
              (if edit_append p then ''appended'' else ''replaced'')]),
       s1\<lparr>trace := trace s1 @ [Goto (edit_documentUrl p), WaitForSelector editor_frame_marker None, Frames,
             WaitForTimeout 2000]\<rparr>)"
  using assms by (simp add: editDocument_try_def calm_run)

lemma no_frame_format:
  assumes "calm d" and "\<forall>tr. find is_editor_frame (frames d tr) = None" and "on_page s1"
  shows "formatText_try d p s1 =
      (Inr (ToolResult [Formatted True (format_format p) True]),
       s1\<lparr>trace := trace s1 @ [Goto (format_documentUrl p), WaitForSelector editor_frame_marker None, Frames]\<rparr>)"
  using assms by (simp add: formatText_try_def calm_run)

lemma no_frame_list:
  assumes "calm d" and "\<forall>tr. find is_editor_frame (frames d tr) = None" and "on_page s1"
  shows "createList_try d p s1 =
      (Inr (ToolResult [ListCreated True (clist_listType p) (length (clist_items p))]),
       s1\<lparr>trace := trace s1 @ [Goto (clist_documentUrl p),
             WaitForSelector editor_frame_marker None, Frames]\<rparr>)"
  using assms by (simp add: createList_try_def calm_run)

lemma no_frame_link:
  assumes "calm d" and "\<forall>tr. find is_editor_frame (frames d tr) = None" and "on_page s1"
  shows "insertLink_try d p s1 =
      (Inr (ToolResult [LinkInserted True (link_text p) (link_url p)]),
       s1\<lparr>trace := trace s1 @ [Goto (link_documentUrl p),
             WaitForSelector editor_frame_marker None, Frames]\<rparr>)"
  using assms by (simp add: insertLink_try_def calm_run)

lemma no_frame_font:
  assumes "calm d" and "\<forall>tr. find is_editor_frame (frames d tr) = None" and "on_page s1"
  shows "changeFont_try d p s1 =
      (Inr (ToolResult [FontChanged True (font_fontFamily p) (font_fontSize p)]),
       s1\<lparr>trace := trace s1 @ [Goto (font_documentUrl p),
             WaitForSelector editor_frame_marker None, Frames]\<rparr>)"
  using assms by (simp add: changeFont_try_def calm_run)

lemma no_frame_align:
  assumes "calm d" and "\<forall>tr. find is_editor_frame (frames d tr) = None" and "on_page s1"
  shows "setAlignment_try d p s1 =
      (Inr (ToolResult [Aligned True (align_alignment p)]),
       s1\<lparr>trace := trace s1 @ [Goto (align_documentUrl p),
             WaitForSelector editor_frame_marker None, Frames]\<rparr>)"
  using assms by (simp add: setAlignment_try_def calm_run)

text \<open>
  Claim C2, as amended. On a driver where no call fails, when no frame matches the
  editor's name or address after the marker appeared, every editing tool
  (\<^verbatim>\<open>edit_document\<close>, \<^verbatim>\<open>format_text\<close>, \<^verbatim>\<open>create_list\<close>, \<^verbatim>\<open>insert_link\<close>, \<^verbatim>\<open>change_font\<close>,
  \<^verbatim>\<open>set_alignment\<close>) skips all its editor actions and returns its success payload: after
  the navigation, the wait for the marker and the enumeration of the frames it issues no
  further call (\<^verbatim>\<open>edit_document\<close> only its closing two-second wait).
\<close>

theorem no_editor_frame_reports_success:
  assumes calm: "calm d"
    and none: "\<forall>tr. find is_editor_frame (frames d tr) = None"
    and edit: "EditDocumentSchema a1 = Inr p1"
    and format: "FormatTextSchema a2 = Inr p2"
    and list: "CreateListSchema a3 = Inr p3"
    and link: "InsertLinkSchema d a4 = Inr p4"
    and font: "ChangeFontSchema a5 = Inr p5"
    and align: "SetAlignmentSchema a6 = Inr p6"
  shows "editDocument d a1 s =
           (Inr (ToolResult [Edited True (edit_documentUrl p1)
                   (if edit_append p1 then ''appended'' else ''replaced'')]),
            issued d s [Goto (edit_documentUrl p1), WaitForSelector editor_frame_marker None,
                        Frames, WaitForTimeout 2000]) \<and>
         formatText d a2 s =
           (Inr (ToolResult [Formatted True (format_format p2) True]),
            issued d s [Goto (format_documentUrl p2),
                        WaitForSelector editor_frame_marker None, Frames]) \<and>
         createList d a3 s =
           (Inr (ToolResult [ListCreated True (clist_listType p3) (length (clist_items p3))]),
            issued d s [Goto (clist_documentUrl p3),
                        WaitForSelector editor_frame_marker None, Frames]) \<and>
         insertLink d a4 s =
           (Inr (ToolResult [LinkInserted True (link_text p4) (link_url p4)]),
            issued d s [Goto (link_documentUrl p4),
                        WaitForSelector editor_frame_marker None, Frames]) \<and>
         changeFont d a5 s =
           (Inr (ToolResult [FontChanged True (font_fontFamily p5) (font_fontSize p5)]),
            issued d s [Goto (font_documentUrl p5),
                        WaitForSelector editor_frame_marker None, Frames]) \<and>
         setAlignment d a6 s =
           (Inr (ToolResult [Aligned True (align_alignment p6)]),
            issued d s [Goto (align_documentUrl p6),
                        WaitForSelector editor_frame_marker None, Frames])"
proof -
  note page = calm_ensureBrowser(2) [OF calm, of s]
  have 1: "editDocument d a1 s =
           (Inr (ToolResult [Edited True (edit_documentUrl p1)
                   (if edit_append p1 then ''appended'' else ''replaced'')]),
            issued d s [Goto (edit_documentUrl p1), WaitForSelector editor_frame_marker None,
                        Frames, WaitForTimeout 2000])"
    unfolding editDocument_def edit issued_def
    by (rule calm_tool [OF calm]) (rule no_frame_edit [OF calm none page])
  have 2: "formatText d a2 s =
           (Inr (ToolResult [Formatted True (format_format p2) True]),
            issued d s [Goto (format_documentUrl p2),
                        WaitForSelector editor_frame_marker None, Frames])"
    unfolding formatText_def format issued_def
    by (rule calm_tool [OF calm]) (rule no_frame_format [OF calm none page])
  have 3: "createList d a3 s =
           (Inr (ToolResult [ListCreated True (clist_listType p3) (length (clist_items p3))]),
            issued d s [Goto (clist_documentUrl p3),
                        WaitForSelector editor_frame_marker None, Frames])"
    unfolding createList_def list issued_def
    by (rule calm_tool [OF calm]) (rule no_frame_list [OF calm none page])
  have 4: "insertLink d a4 s =
           (Inr (ToolResult [LinkInserted True (link_text p4) (link_url p4)]),
            issued d s [Goto (link_documentUrl p4),
                        WaitForSelector editor_frame_marker None, Frames])"
    unfolding insertLink_def link issued_def
    by (rule calm_tool [OF calm]) (rule no_frame_link [OF calm none page])
  have 5: "changeFont d a5 s =
           (Inr (ToolResult [FontChanged True (font_fontFamily p5) (font_fontSize p5)]),
            issued d s [Goto (font_documentUrl p5),
                        WaitForSelector editor_frame_marker None, Frames])"
    unfolding changeFont_def font issued_def
    by (rule calm_tool [OF calm]) (rule no_frame_font [OF calm none page])
  have 6: "setAlignment d a6 s =
           (Inr (ToolResult [Aligned True (align_alignment p6)]),
            issued d s [Goto (align_documentUrl p6),
                        WaitForSelector editor_frame_marker None, Frames])"
    unfolding setAlignment_def align issued_def
    by (rule calm_tool [OF calm]) (rule no_frame_align [OF calm none page])
  from 1 2 3 4 5 6 show ?thesis by (intro conjI)
qed

theorem no_editor_frame_reports_success_witness:
  "calm plain_page \<and> (\<forall>tr. find is_editor_frame (frames plain_page tr) = None) \<and>
   editDocument plain_page
     (JObj [(''documentUrl'', JStr sample_url), (''content'', JStr ''hello'')]) initial
     = (Inr (ToolResult [Edited True sample_url ''replaced'']),
        issued plain_page initial
          [Goto sample_url, WaitForSelector editor_frame_marker None, Frames,
           WaitForTimeout 2000]) \<and>
   formatText plain_page
     (JObj [(''documentUrl'', JStr sample_url), (''format'', JStr ''bold'')]) initial
     = (Inr (ToolResult [Formatted True Bold True]),
        issued plain_page initial
          [Goto sample_url, WaitForSelector editor_frame_marker None, Frames])"
proof -
  have calm: "calm plain_page" unfolding plain_page_def by (rule calm_scripted)
  have none: "\<forall>tr. find is_editor_frame (frames plain_page tr) = None"
    by (simp add: plain_page_def scripted_def is_editor_frame_def sample_url_def)
  have 1: "EditDocumentSchema
      (JObj [(''documentUrl'', JStr sample_url), (''content'', JStr ''hello'')])
      = Inr \<lparr>edit_documentUrl = sample_url, edit_content = ''hello'', edit_append = False\<rparr>"
    by (simp add: EditDocumentSchema_def field_def z_default_def)
  have 2: "FormatTextSchema
      (JObj [(''documentUrl'', JStr sample_url), (''format'', JStr ''bold'')])
      = Inr \<lparr>format_documentUrl = sample_url, format_format = Bold, format_selection = None\<rparr>"
    by (simp add: FormatTextSchema_def field_def z_enum_def z_optional_def)
  have 3: "CreateListSchema
      (JObj [(''documentUrl'', JStr sample_url), (''listType'', JStr ''bullet''),
             (''items'', JArr [JStr ''one''])])
      = Inr \<lparr>clist_documentUrl = sample_url, clist_listType = Bullet, clist_items = [''one'']\<rparr>"
    by (simp add: CreateListSchema_def field_def z_enum_def)
  have 4: "InsertLinkSchema plain_page
      (JObj [(''documentUrl'', JStr sample_url), (''text'', JStr ''Proton''),
             (''url'', JStr ''https://proton.me'')])
      = Inr \<lparr>link_documentUrl = sample_url, link_text = ''Proton'',
             link_url = ''https://proton.me''\<rparr>"
    by (simp add: InsertLinkSchema_def field_def z_refine_def plain_page_def scripted_def)
  have 5: "ChangeFontSchema (JObj [(''documentUrl'', JStr sample_url)])
      = Inr \<lparr>font_documentUrl = sample_url, font_fontFamily = None, font_fontSize = None\<rparr>"
    by (simp add: ChangeFontSchema_def field_def z_optional_def)
  have 6: "SetAlignmentSchema
      (JObj [(''documentUrl'', JStr sample_url), (''alignment'', JStr ''center'')])
      = Inr \<lparr>align_documentUrl = sample_url, align_alignment = Center\<rparr>"
    by (simp add: SetAlignmentSchema_def field_def z_enum_def)
  from no_editor_frame_reports_success [OF calm none 1 2 3 4 5 6, of initial] calm none
  show ?thesis by simp
qed

text \<open>
  The claim as written has the tool fail when no frame matches; \<^verbatim>\<open>edit_document\<close> on a page
  whose only frame is not the editor's returns success and has typed nothing.
\<close>

theorem no_editor_frame_counterexample:
  "editDocument plain_page
     (JObj [(''documentUrl'', JStr sample_url), (''content'', JStr ''hello'')]) initial
   = (Inr (ToolResult [Edited True sample_url ''replaced'']),
      \<lparr>browser = Some (Browser 0), page = Some (Page 1),
       trace = [Launch, NewPage, SetViewport 1280 800, Goto sample_url,
                WaitForSelector editor_frame_marker None, Frames, WaitForTimeout 2000]\<rparr>)"
  by (simp add: editDocument_def editDocument_try_def EditDocumentSchema_def plain_page_def
      sample_url_def run_defs)

section \<open>No toolbar button and no shortcut\<close>

lemma calm_type_items:
  "calm d \<Longrightarrow> on_page s \<Longrightarrow>
   type_items d f items s = (Inr (), s\<lparr>trace := trace s @ item_calls f items\<rparr>)"
  by (induction d f items arbitrary: s rule: type_items.induct) (simp_all add: calm_run)

lemma absent_list_button:
  assumes "calm d" and "\<forall>tr. find is_editor_frame (frames d tr) = Some f"
    and "\<forall>tr. \<not> found d tr (FrameElem f (list_button (clist_listType p)))"
    and "on_page s1"
  shows "createList_try d p s1 =
      (Inr (ToolResult [ListCreated True (clist_listType p) (length (clist_items p))]),
       s1\<lparr>trace := trace s1 @
             ([Goto (clist_documentUrl p), WaitForSelector editor_frame_marker None, Frames,
               FrameClick f main_editor_sel, FrameQuery f (list_button (clist_listType p))]
              @ item_calls f (clist_items p) @ [KeyPress ''Enter'', KeyPress ''Enter''])\<rparr>)"
  using assms by (simp add: createList_try_def calm_run calm_type_items)

lemma absent_align_button:
  assumes "calm d" and "\<forall>tr. find is_editor_frame (frames d tr) = Some f"
    and "\<forall>tr. \<not> found d tr (FrameElem f (alignmentMap (align_alignment p)))"
    and "on_page s1"
  shows "setAlignment_try d p s1 =
      (Inr (ToolResult [Aligned True (align_alignment p)]),
       s1\<lparr>trace := trace s1 @
             [Goto (align_documentUrl p), WaitForSelector editor_frame_marker None, Frames,
              FrameClick f main_editor_sel, KeyDown ''Control'', KeyPress ''a'',
              KeyUp ''Control'', FrameQuery f (alignmentMap (align_alignment p))]\<rparr>)"
  using assms by (simp add: setAlignment_try_def calm_run)

text \<open>
  Claim C4, as amended. On a driver where no call fails and the editor frame is found,
  when the list button of \<^verbatim>\<open>create_list\<close> (the alignment button of \<^verbatim>\<open>set_alignment\<close>) is
  absent, the click is skipped and the tool goes on: \<^verbatim>\<open>create_list\<close> still types every
  item and leaves the list, \<^verbatim>\<open>set_alignment\<close> ends there, and both return their success
  payload.
\<close>

theorem absent_button_is_skipped:
  assumes calm: "calm d"
    and frame: "\<forall>tr. find is_editor_frame (frames d tr) = Some f"
    and list: "CreateListSchema a1 = Inr p1"
    and no_list_button: "\<forall>tr. \<not> found d tr (FrameElem f (list_button (clist_listType p1)))"
    and align: "SetAlignmentSchema a2 = Inr p2"
    and no_align_button:
      "\<forall>tr. \<not> found d tr (FrameElem f (alignmentMap (align_alignment p2)))"
  shows "createList d a1 s =
           (Inr (ToolResult [ListCreated True (clist_listType p1) (length (clist_items p1))]),
            issued d s
              ([Goto (clist_documentUrl p1), WaitForSelector editor_frame_marker None, Frames,
                FrameClick f main_editor_sel, FrameQuery f (list_button (clist_listType p1))]
               @ item_calls f (clist_items p1) @ [KeyPress ''Enter'', KeyPress ''Enter''])) \<and>
         setAlignment d a2 s =
           (Inr (ToolResult [Aligned True (align_alignment p2)]),
            issued d s
              [Goto (align_documentUrl p2), WaitForSelector editor_frame_marker None, Frames,
               FrameClick f main_editor_sel, KeyDown ''Control'', KeyPress ''a'',
               KeyUp ''Control'', FrameQuery f (alignmentMap (align_alignment p2))])"
proof -
  note page = calm_ensureBrowser(2) [OF calm, of s]
  have 1: "createList d a1 s =
           (Inr (ToolResult [ListCreated True (clist_listType p1) (length (clist_items p1))]),
            issued d s
              ([Goto (clist_documentUrl p1), WaitForSelector editor_frame_marker None, Frames,
                FrameClick f main_editor_sel, FrameQuery f (list_button (clist_listType p1))]
               @ item_calls f (clist_items p1) @ [KeyPress ''Enter'', KeyPress ''Enter'']))"
    unfolding createList_def list issued_def
    by (rule calm_tool [OF calm]) (rule absent_list_button [OF calm frame no_list_button page])
  have 2: "setAlignment d a2 s =
           (Inr (ToolResult [Aligned True (align_alignment p2)]),
            issued d s
              [Goto (align_documentUrl p2), WaitForSelector editor_frame_marker None, Frames,
               FrameClick f main_editor_sel, KeyDown ''Control'', KeyPress ''a'',
               KeyUp ''Control'', FrameQuery f (alignmentMap (align_alignment p2))])"
    unfolding setAlignment_def align issued_def
    by (rule calm_tool [OF calm]) (rule absent_align_button [OF calm frame no_align_button page])
  from 1 2 show ?thesis by (intro conjI)
qed

theorem absent_button_is_skipped_witness:
  "calm editor_page \<and> (\<forall>tr. find is_editor_frame (frames editor_page tr) = Some editor_frame) \<and>
   (\<forall>tr. \<not> found editor_page tr (FrameElem editor_frame (list_button Bullet))) \<and>
   (\<forall>tr. \<not> found editor_page tr (FrameElem editor_frame (alignmentMap Center))) \<and>
   createList editor_page
     (JObj [(''documentUrl'', JStr sample_url), (''listType'', JStr ''bullet''),
            (''items'', JArr [JStr ''one'', JStr ''two''])]) initial
     = (Inr (ToolResult [ListCreated True Bullet 2]),
        issued editor_page initial
          [Goto sample_url, WaitForSelector editor_frame_marker None, Frames,
           FrameClick editor_frame main_editor_sel,
           FrameQuery editor_frame (list_button Bullet),
           FrameType editor_frame main_editor_sel ''one'', KeyPress ''Enter'',
           FrameType editor_frame main_editor_sel ''two'',
           KeyPress ''Enter'', KeyPress ''Enter'']) \<and>
   setAlignment editor_page
     (JObj [(''documentUrl'', JStr sample_url), (''alignment'', JStr ''center'')]) initial
     = (Inr (ToolResult [Aligned True Center]),
        issued editor_page initial
          [Goto sample_url, WaitForSelector editor_frame_marker None, Frames,
           FrameClick editor_frame main_editor_sel, KeyDown ''Control'', KeyPress ''a'',
           KeyUp ''Control'', FrameQuery editor_frame (alignmentMap Center)])"
proof -
  have calm: "calm editor_page" unfolding editor_page_def by (rule calm_scripted)
  have frame: "\<forall>tr. find is_editor_frame (frames editor_page tr) = Some editor_frame"
    by (simp add: editor_page_def scripted_def is_editor_frame_def editor_frame_def)
  have 1: "CreateListSchema
      (JObj [(''documentUrl'', JStr sample_url), (''listType'', JStr ''bullet''),
             (''items'', JArr [JStr ''one'', JStr ''two''])])
      = Inr \<lparr>clist_documentUrl = sample_url, clist_listType = Bullet,
             clist_items = [''one'', ''two'']\<rparr>"
    by (simp add: CreateListSchema_def field_def z_enum_def)
  have 2: "SetAlignmentSchema
      (JObj [(''documentUrl'', JStr sample_url), (''alignment'', JStr ''center'')])
      = Inr \<lparr>align_documentUrl = sample_url, align_alignment = Center\<rparr>"
    by (simp add: SetAlignmentSchema_def field_def z_enum_def)
  have absent: "\<forall>tr. \<not> found editor_page tr (FrameElem editor_frame sel)" for sel
    by (simp add: editor_page_def scripted_def)
  from absent_button_is_skipped [OF calm frame 1 _ 2, of initial] calm frame absent
  show ?thesis by simp
qed

text \<open>
  The claim as written has the tool fail, naming the locator; \<^verbatim>\<open>set_alignment\<close> with no
  alignment button in the editor frame returns success.
\<close>

theorem absent_button_counterexample:
  "setAlignment editor_page
     (JObj [(''documentUrl'', JStr sample_url), (''alignment'', JStr ''center'')]) initial
   = (Inr (ToolResult [Aligned True Center]),
      \<lparr>browser = Some (Browser 0), page = Some (Page 1),
       trace = [Launch, NewPage, SetViewport 1280 800, Goto sample_url,
                WaitForSelector editor_frame_marker None, Frames,
                FrameClick editor_frame main_editor_sel, KeyDown ''Control'', KeyPress ''a'',
                KeyUp ''Control'', FrameQuery editor_frame (alignmentMap Center)]\<rparr>)"
  by (simp add: setAlignment_def setAlignment_try_def SetAlignmentSchema_def editor_page_def
      sample_url_def run_defs)

section \<open>The shortcut of a format\<close>

lemma calm_press_shortcut:
  assumes "calm d" and "on_page s"
  shows "press_shortcut d (snd (formatMap fmt)) s =
      (Inr (), s\<lparr>trace := trace s @ (map KeyDown (modifiers fmt) @
                      [KeyPress (terminal_key fmt)] @ map KeyUp (modifiers fmt))\<rparr>)"
  using assms by (cases fmt) (simp_all add: press_shortcut_def calm_run Let_def)

lemma calm_selection:
  assumes "calm d" and "on_page s"
  shows "select_text d f selection s
         = (Inr (), s\<lparr>trace := trace s @ selection_calls f selection\<rparr>)"
  using assms
  by (simp add: select_text_def if_truthy_def selection_calls_def calm_run
      split: option.splits)

lemma calm_apply_format:
  assumes "calm d" and "on_page s"
    and "\<not> found d (trace s) (FrameElem f (fst (formatMap fmt)))"
  shows "apply_format d f fmt s =
      (Inr (), s\<lparr>trace := trace s @ (FrameQuery f (fst (formatMap fmt)) #
                      map KeyDown (modifiers fmt) @
                      [KeyPress (terminal_key fmt)] @ map KeyUp (modifiers fmt))\<rparr>)"
  using assms
  by (simp add: apply_format_def frame_query_def calm_ask await_def calm_press_shortcut)

lemma absent_format_button:
  assumes "calm d" and "\<forall>tr. find is_editor_frame (frames d tr) = Some f"
    and "\<forall>tr. \<not> found d tr (FrameElem f (fst (formatMap (format_format p))))"
    and "on_page s1"
  shows "formatText_try d p s1 =
      (Inr (ToolResult [Formatted True (format_format p) True]),
       s1\<lparr>trace := trace s1 @
             ([Goto (format_documentUrl p), WaitForSelector editor_frame_marker None, Frames]
              @ selection_calls f (format_selection p)
              @ [FrameQuery f (fst (formatMap (format_format p)))]
              @ map KeyDown (modifiers (format_format p))
              @ [KeyPress (terminal_key (format_format p))]
              @ map KeyUp (modifiers (format_format p)))\<rparr>)"
  using assms
  by (simp add: formatText_try_def calm_run calm_selection calm_apply_format)

text \<open>
  Claim C3, as amended. On a driver where no call fails and the editor frame is found,
  when the toolbar button of the format is absent, \<^verbatim>\<open>format_text\<close> issues, after the
  query for the button, exactly the keys of the shortcut and no click: every modifier is
  pressed down, in the order of the shortcut, then the last key is pressed, then the
  modifiers are released in the same order in which they were pressed; the tool returns
  \<open>applied = true\<close>.
\<close>

theorem format_fallback_chord:
  assumes calm: "calm d"
    and frame: "\<forall>tr. find is_editor_frame (frames d tr) = Some f"
    and args: "FormatTextSchema a = Inr p"
    and no_button: "\<forall>tr. \<not> found d tr (FrameElem f (fst (formatMap (format_format p))))"
  shows "formatText d a s =
           (Inr (ToolResult [Formatted True (format_format p) True]),
            issued d s
              ([Goto (format_documentUrl p), WaitForSelector editor_frame_marker None, Frames]
               @ selection_calls f (format_selection p)
               @ [FrameQuery f (fst (formatMap (format_format p)))]
               @ map KeyDown (modifiers (format_format p))
               @ [KeyPress (terminal_key (format_format p))]
               @ map KeyUp (modifiers (format_format p))))"
  unfolding formatText_def args issued_def
  by (rule calm_tool [OF calm])
     (rule absent_format_button [OF calm frame no_button calm_ensureBrowser(2) [OF calm]])

theorem format_fallback_chord_witness:
  "calm editor_page \<and> (\<forall>tr. find is_editor_frame (frames editor_page tr) = Some editor_frame) \<and>
   (\<forall>tr. \<not> found editor_page tr (FrameElem editor_frame (fst (formatMap Bold)))) \<and>
   formatText editor_page
     (JObj [(''documentUrl'', JStr sample_url), (''format'', JStr ''bold'')]) initial
     = (Inr (ToolResult [Formatted True Bold True]),
        issued editor_page initial
          [Goto sample_url, WaitForSelector editor_frame_marker None, Frames,
           FrameQuery editor_frame (title_button ''Bold''),
           KeyDown ''Control'', KeyPress ''b'', KeyUp ''Control''])"
proof -
  have calm: "calm editor_page" unfolding editor_page_def by (rule calm_scripted)
  have frame: "\<forall>tr. find is_editor_frame (frames editor_page tr) = Some editor_frame"
    by (simp add: editor_page_def scripted_def is_editor_frame_def editor_frame_def)
  have args: "FormatTextSchema
      (JObj [(''documentUrl'', JStr sample_url), (''format'', JStr ''bold'')])
      = Inr \<lparr>format_documentUrl = sample_url, format_format = Bold, format_selection = None\<rparr>"
    by (simp add: FormatTextSchema_def field_def z_enum_def z_optional_def)
  have absent: "\<forall>tr. \<not> found editor_page tr (FrameElem editor_frame sel)" for sel
    by (simp add: editor_page_def scripted_def)
  from format_fallback_chord [OF calm frame args, of initial] calm frame absent
  show ?thesis by (simp add: selection_calls_def)
qed

text \<open>
  The claim as written has the modifiers released in the reverse order of pressing; for
  \<open>strikethrough\<close> (\<open>Control+Shift+x\<close>) Control is released before Shift.
\<close>

theorem format_release_order_counterexample:
  "trace (snd (formatText editor_page
     (JObj [(''documentUrl'', JStr sample_url), (''format'', JStr ''strikethrough'')]) initial))
   = [Launch, NewPage, SetViewport 1280 800, Goto sample_url,
      WaitForSelector editor_frame_marker None, Frames,
      FrameQuery editor_frame (title_button ''Strike''),
      KeyDown ''Control'', KeyDown ''Shift'', KeyPress ''x'', KeyUp ''Control'', KeyUp ''Shift'']
   \<and> released (trace (snd (formatText editor_page
     (JObj [(''documentUrl'', JStr sample_url), (''format'', JStr ''strikethrough'')]) initial)))
     \<noteq> rev (held (trace (snd (formatText editor_page
     (JObj [(''documentUrl'', JStr sample_url), (''format'', JStr ''strikethrough'')]) initial))))"
  by (simp add: formatText_def formatText_try_def FormatTextSchema_def editor_page_def
      sample_url_def run_defs)

section \<open>One session for all operations\<close>














































section \<open>The outcome of an invocation\<close>


































end
